theory Spec2Isabelle
  imports Complex_Main "HOL-Library.Multiset"
begin

section \<open>Self\_Learning\_RAG: the retrieval demo and the API start-up check\<close>

text \<open>
  The development embeds the two Python files of the repository:
  \<^item> \<^verbatim>\<open>simple_rag_demo.py\<close>: class \<^verbatim>\<open>SimpleRAG\<close> with \<^verbatim>\<open>add_document\<close>,
    \<^verbatim>\<open>_generate_embedding\<close>, \<^verbatim>\<open>retrieve\<close>, \<^verbatim>\<open>_cosine_similarity\<close>,
    \<^verbatim>\<open>generate_answer\<close> and \<^verbatim>\<open>query\<close>;
  \<^item> \<^verbatim>\<open>test_api.py\<close>: \<^verbatim>\<open>load_environment\<close> and \<^verbatim>\<open>main\<close>.

  Conventions of the embedding.
  \<^item> A Python \<^verbatim>\<open>str\<close> is the list of its Unicode code points (\<open>pystr\<close>), so that
    concatenation, equality and slicing are those of Python. The string literals of the
    source are constants holding their code points; a comment gives an English gloss.
  \<^item> A numpy \<^verbatim>\<open>float64\<close> is a real number (each float64 is one), with the three
    non-finite values as values of their own (\<open>np_float\<close>). Arithmetic is exact in
    \<open>cosine_similarity\<close>; where rounding can change an outcome, the rounded value is a
    parameter (see \<open>cosine_similarity_float64\<close>).
  \<^item> The global generator behind \<^verbatim>\<open>np.random.rand\<close> is the infinite sequence of the numbers
    it is going to produce (\<open>rng\<close>); a function that draws from it returns the rest.
  \<^item> A raised exception is the \<open>Inl\<close> of a sum type.
  \<^item> leading underscores of method names are dropped, since an Isabelle name cannot
    start with one.
  \<^item> \<^verbatim>\<open>print\<close> writes to a standard output that encodes in UTF-8. For
    \<^verbatim>\<open>simple_rag_demo.py\<close> a \<^verbatim>\<open>print\<close> is modelled by whether it raises (\<open>py_print\<close>);
    the output of \<^verbatim>\<open>test_api.py\<close> is modelled, one list element per \<^verbatim>\<open>print\<close>.
\<close>

type_synonym pystr = "nat list"

subsection \<open>numpy: arrays, dot product, norm, division\<close>

type_synonym ndarray = "real list"

datatype py_error = ValueError | IndexError | UnicodeEncodeError

datatype np_float = Finite real | NaN | PosInf | NegInf

definition dot :: "ndarray \<Rightarrow> ndarray \<Rightarrow> real" where
  "dot a b = sum_list (map (\<lambda>(x, y). x * y) (zip a b))"

text \<open>\<^verbatim>\<open>np.dot\<close> of two one-dimensional arrays raises \<^verbatim>\<open>ValueError\<close> when their sizes differ.\<close>

definition np_dot :: "ndarray \<Rightarrow> ndarray \<Rightarrow> py_error + real" where
  "np_dot a b = (if length a = length b then Inr (dot a b) else Inl ValueError)"

definition np_norm :: "ndarray \<Rightarrow> real" where
  "np_norm a = sqrt (sum_list (map (\<lambda>x. x * x) a))"

text \<open>
  Division of two numpy scalars never raises: a zero divisor gives \<^verbatim>\<open>nan\<close> for \<open>0 / 0\<close>
  and an infinity otherwise (with a warning on the console).
\<close>

definition np_divide :: "real \<Rightarrow> real \<Rightarrow> np_float" where
  "np_divide x y =
     (if y = 0 then (if x = 0 then NaN else if 0 < x then PosInf else NegInf)
      else Finite (x / y))"

text \<open>Python's \<^verbatim>\<open><\<close> on floats: false as soon as one side is \<^verbatim>\<open>nan\<close>.\<close>

fun np_less :: "np_float \<Rightarrow> np_float \<Rightarrow> bool" where
  "np_less NaN _ = False"
| "np_less _ NaN = False"
| "np_less (Finite x) (Finite y) = (x < y)"
| "np_less (Finite x) PosInf = True"
| "np_less (Finite x) NegInf = False"
| "np_less PosInf _ = False"
| "np_less NegInf NegInf = False"
| "np_less NegInf _ = True"

subsection \<open>\<^verbatim>\<open>SimpleRAG._cosine_similarity\<close>\<close>

definition cosine_similarity :: "ndarray \<Rightarrow> ndarray \<Rightarrow> py_error + np_float" where
  "cosine_similarity vec1 vec2 =
     (case np_dot vec1 vec2 of
        Inl e \<Rightarrow> Inl e
      | Inr dot_product \<Rightarrow>
          (let norm_a = np_norm vec1;
               norm_b = np_norm vec2
           in Inr (np_divide dot_product (norm_a * norm_b))))"

subsection \<open>\<^verbatim>\<open>_cosine_similarity\<close> in float64\<close>

text \<open>
  \<open>cosine_similarity\<close> computes with exact numbers; \<open>score\<close> is its value for two arrays
  of one size. In float64 the dot product, the two norms, their product and the quotient
  are each rounded, so the value line 73 returns can differ from the exact one in its last
  digits, and that decides which of two close scores is the greater and whether two scores
  are equal. Where the order of scores matters, the float64 value of line 73 for two arrays
  of one size is therefore a parameter \<open>fl\<close>, about which nothing is assumed. With \<open>score\<close>
  for \<open>fl\<close> the computation is the exact one; on arrays whose numbers make every operation
  exact in float64 (the concrete inputs below: a few entries \<open>1/4\<close> or \<open>1/2\<close>, the rest \<open>0\<close>)
  the two agree.
\<close>

definition score :: "ndarray \<Rightarrow> ndarray \<Rightarrow> np_float" where
  "score q e = np_divide (dot q e) (np_norm q * np_norm e)"

definition cosine_similarity_float64 ::
    "(ndarray \<Rightarrow> ndarray \<Rightarrow> np_float) \<Rightarrow> ndarray \<Rightarrow> ndarray \<Rightarrow> py_error + np_float" where
  "cosine_similarity_float64 fl vec1 vec2 =
     (if length vec1 = length vec2 then Inr (fl vec1 vec2) else Inl ValueError)"

subsection \<open>\<^verbatim>\<open>print\<close>\<close>

text \<open>
  The standard output encodes in UTF-8. \<^verbatim>\<open>print\<close> raises \<^verbatim>\<open>UnicodeEncodeError\<close> when the
  string holds a surrogate code point (U+D800 to U+DFFF), which UTF-8 does not encode,
  and writes the string otherwise. The text written by \<^verbatim>\<open>simple_rag_demo.py\<close> is not
  recorded. A \<^verbatim>\<open>print\<close> of a literal alone (lines 99, 102, 109 and 117) and the one of line
  112, a literal with a position and a number formatted by \<^verbatim>\<open>.3f\<close>, write no surrogate
  and cannot raise; they do not appear below.
\<close>

definition encodable :: "pystr \<Rightarrow> bool" where
  "encodable s = list_all (\<lambda>c. c < 55296 \<or> 57343 < c) s"

definition py_print :: "pystr \<Rightarrow> py_error + unit" where
  "py_print s = (if encodable s then Inr () else Inl UnicodeEncodeError)"

subsection \<open>The object and its constructor\<close>

text \<open>
  A stored document is the dictionary \<^verbatim>\<open>{'id': doc_id, 'content': content}\<close>; the key
  \<^verbatim>\<open>'id'\<close> becomes the field \<open>id'\<close>. The object has the three attributes that
  \<^verbatim>\<open>__init__\<close> creates empty.
\<close>

record document =
  id' :: pystr
  content :: pystr

record simple_rag =
  documents :: "document list"
  embeddings :: "ndarray list"
  index :: "pystr \<rightharpoonup> nat"

definition init :: simple_rag where
  "init = \<lparr>documents = [], embeddings = [], index = Map.empty\<rparr>"

subsection \<open>\<^verbatim>\<open>SimpleRAG._generate_embedding\<close>\<close>

type_synonym rng = "nat \<Rightarrow> real"

text \<open>\<^verbatim>\<open>np.random.rand(n)\<close>: the next \<open>n\<close> numbers of the generator, which moves on by \<open>n\<close>.\<close>

definition random_rand :: "nat \<Rightarrow> rng \<Rightarrow> ndarray \<times> rng" where
  "random_rand n g = (map g [0..<n], \<lambda>i. g (i + n))"

text \<open>
  The method lowers and splits the text into \<^verbatim>\<open>words\<close> and builds the set \<^verbatim>\<open>vocab\<close>
  (lines 36 and 37), and uses neither: the vector returned is \<^verbatim>\<open>np.random.rand(100)\<close>.
  The two unused values cannot raise on a \<^verbatim>\<open>str\<close> and are not modelled.
\<close>

definition generate_embedding :: "pystr \<Rightarrow> rng \<Rightarrow> ndarray \<times> rng" where
  "generate_embedding text g = (let (vector, g') = random_rand 100 g in (vector, g'))"

subsection \<open>\<^verbatim>\<open>SimpleRAG.add_document\<close>\<close>

text \<open>Line 31 of \<^verbatim>\<open>simple_rag_demo.py\<close>. "Document " (with the space), in front of the identifier.\<close>

definition added_head :: pystr where
  "added_head =
     [25991, 26723, 32]"

text \<open>Line 31 of \<^verbatim>\<open>simple_rag_demo.py\<close>. " has been added to the knowledge base", after the identifier.\<close>

definition added_tail :: pystr where
  "added_tail =
     [32, 24050, 28155, 21152, 21040, 30693, 35782, 24211]"

text \<open>
  The method appends to the two lists, sets the index and then prints the identifier
  (line 31). The result is what the call does (it returns, or the \<^verbatim>\<open>print\<close> raises), the
  object after the call and the generator after the call. An exception of the \<^verbatim>\<open>print\<close>
  comes after the three updates and does not undo them.
\<close>

definition add_document ::
    "simple_rag \<Rightarrow> pystr \<Rightarrow> pystr \<Rightarrow> rng \<Rightarrow> (py_error + unit) \<times> simple_rag \<times> rng" where
  "add_document s doc_id cont g =
     (let documents1 = documents s @ [\<lparr>id' = doc_id, content = cont\<rparr>];
          (embedding, g') = generate_embedding cont g;
          embeddings1 = embeddings s @ [embedding];
          index1 = (index s)(doc_id \<mapsto> length documents1 - 1)
      in (py_print (added_head @ doc_id @ added_tail),
          \<lparr>documents = documents1, embeddings = embeddings1, index = index1\<rparr>, g'))"

text \<open>
  The states an object can be in: created by \<^verbatim>\<open>__init__\<close>, then any number of
  \<^verbatim>\<open>add_document\<close> calls, each at whatever point the generator has reached, whether the
  call returned or raised. No other method writes the three attributes.
\<close>

inductive reachable :: "simple_rag \<Rightarrow> bool" where
  start: "reachable init"
| step: "reachable s \<Longrightarrow> reachable (fst (snd (add_document s doc_id cont g)))"

text \<open>
  The same states, as a function of the calls made: each call is given by its identifier,
  its content and the generator it finds.
\<close>

fun inserted :: "(pystr \<times> pystr \<times> rng) list \<Rightarrow> simple_rag \<Rightarrow> simple_rag" where
  "inserted [] s = s"
| "inserted ((doc_id, cont, g) # calls) s =
     inserted calls (fst (snd (add_document s doc_id cont g)))"

subsection \<open>\<^verbatim>\<open>SimpleRAG.retrieve\<close>\<close>

text \<open>The loop over \<^verbatim>\<open>enumerate(self.embeddings)\<close>, from position \<open>i\<close> on; an exception of
  \<^verbatim>\<open>_cosine_similarity\<close> ends it.\<close>

fun similarities_from ::
    "(ndarray \<Rightarrow> ndarray \<Rightarrow> np_float) \<Rightarrow> ndarray \<Rightarrow> nat \<Rightarrow> ndarray list \<Rightarrow>
     py_error + (nat \<times> np_float) list" where
  "similarities_from fl query_embedding i [] = Inr []"
| "similarities_from fl query_embedding i (doc_embedding # rest) =
     (case cosine_similarity_float64 fl query_embedding doc_embedding of
        Inl e \<Rightarrow> Inl e
      | Inr similarity \<Rightarrow>
          (case similarities_from fl query_embedding (Suc i) rest of
             Inl e \<Rightarrow> Inl e
           | Inr similarities \<Rightarrow> Inr ((i, similarity) # similarities)))"

text \<open>
  \<^verbatim>\<open>similarities.sort(key=lambda x: x[1], reverse=True)\<close>. Python's sort is stable, also
  with \<^verbatim>\<open>reverse=True\<close>, and compares keys with \<^verbatim>\<open><\<close> only.
  \<^item> Where \<^verbatim>\<open><\<close> orders the keys totally, that is without \<^verbatim>\<open>nan\<close> among them, the result
    is the one stable arrangement in descending order; \<open>stable_reverse\<close>, an insertion
    sort, computes it.
  \<^item> With \<^verbatim>\<open>nan\<close> among the keys \<^verbatim>\<open><\<close> is no order, and what the sort returns depends on
    the runs its merge strategy finds. One case is determined: when no entry's key is
    less than the key of the entry after it, the sort (which reverses the list, looks for
    a run in ascending order, finds the whole list to be one, and reverses again) returns
    the list as it is.
  \<^item> In every other case the result is \<open>None\<close>: Python returns some arrangement of the
    entries, and the model does not say which.
\<close>

fun insert_reverse :: "nat \<times> np_float \<Rightarrow> (nat \<times> np_float) list \<Rightarrow> (nat \<times> np_float) list" where
  "insert_reverse x [] = [x]"
| "insert_reverse x (y # ys) =
     (if np_less (snd x) (snd y) then y # insert_reverse x ys else x # y # ys)"

definition stable_reverse :: "(nat \<times> np_float) list \<Rightarrow> (nat \<times> np_float) list" where
  "stable_reverse xs = foldr insert_reverse xs []"

definition nan_free :: "(nat \<times> np_float) list \<Rightarrow> bool" where
  "nan_free xs = list_all (\<lambda>x. snd x \<noteq> NaN) xs"

fun one_run :: "(nat \<times> np_float) list \<Rightarrow> bool" where
  "one_run (x # y # ys) = (\<not> np_less (snd x) (snd y) \<and> one_run (y # ys))"
| "one_run [x] = True"
| "one_run [] = True"

definition sort_reverse :: "(nat \<times> np_float) list \<Rightarrow> (nat \<times> np_float) list option" where
  "sort_reverse xs =
     (if nan_free xs then Some (stable_reverse xs)
      else if one_run xs then Some xs
      else None)"

text \<open>The slice \<^verbatim>\<open>xs[:k]\<close>: a negative \<open>k\<close> counts from the end.\<close>

definition slice_to :: "'a list \<Rightarrow> int \<Rightarrow> 'a list" where
  "slice_to xs k = (if 0 \<le> k then take (nat k) xs else take (nat (int (length xs) + k)) xs)"

text \<open>The second loop; \<^verbatim>\<open>self.documents[i]\<close> raises \<^verbatim>\<open>IndexError\<close> beyond the list.\<close>

fun results_of :: "document list \<Rightarrow> (nat \<times> np_float) list \<Rightarrow> py_error + (pystr \<times> np_float) list" where
  "results_of docs [] = Inr []"
| "results_of docs ((i, similarity) # rest) =
     (if i < length docs then
        (case results_of docs rest of
           Inl e \<Rightarrow> Inl e
         | Inr results \<Rightarrow> Inr ((content (docs ! i), similarity) # results))
      else Inl IndexError)"

text \<open>
  The result of \<^verbatim>\<open>retrieve\<close> is \<open>Some\<close> of what the call does (it returns the list, or
  raises), or \<open>None\<close> where the sort is not determined, and the generator after the call.
\<close>

definition retrieve ::
    "(ndarray \<Rightarrow> ndarray \<Rightarrow> np_float) \<Rightarrow> simple_rag \<Rightarrow> pystr \<Rightarrow> int \<Rightarrow> rng \<Rightarrow>
     (py_error + (pystr \<times> np_float) list) option \<times> rng" where
  "retrieve fl s query_text top_k g =
     (if documents s = [] then (Some (Inr []), g)
      else
        (let (query_embedding, g') = generate_embedding query_text g
         in case similarities_from fl query_embedding 0 (embeddings s) of
              Inl e \<Rightarrow> (Some (Inl e), g')
            | Inr similarities \<Rightarrow>
                (case sort_reverse similarities of
                   None \<Rightarrow> (None, g')
                 | Some ranked \<Rightarrow>
                     (Some (results_of (documents s) (slice_to ranked top_k)), g'))))"

subsection \<open>\<^verbatim>\<open>SimpleRAG.generate_answer\<close>\<close>

fun join :: "pystr \<Rightarrow> pystr list \<Rightarrow> pystr" where
  "join sep [] = []"
| "join sep [x] = x"
| "join sep (x # y # ys) = x @ sep @ join sep (y # ys)"

text \<open>Lines 80 to 84 of \<^verbatim>\<open>simple_rag_demo.py\<close>. The prompt up to the context: "Answer the question from the following context: ... Context:".\<close>

definition prompt_head :: pystr where
  "prompt_head =
     [10, 32, 32, 32, 32, 32, 32, 32, 32, 22522, 20110, 20197, 19979, 19978, 19979, 25991,
      20449, 24687, 22238, 31572, 38382, 39064, 65306, 10, 32, 32, 32, 32, 32, 32, 32, 32, 10,
      32, 32, 32, 32, 32, 32, 32, 32, 19978, 19979, 25991, 65306, 10, 32, 32, 32, 32, 32, 32,
      32, 32]"

text \<open>Lines 84 to 86 of \<^verbatim>\<open>simple_rag_demo.py\<close>. "Question:", between the context and the query.\<close>

definition prompt_question :: pystr where
  "prompt_question =
     [10, 32, 32, 32, 32, 32, 32, 32, 32, 10, 32, 32, 32, 32, 32, 32, 32, 32, 38382, 39064,
      65306]"

text \<open>Lines 86 to 89 of \<^verbatim>\<open>simple_rag_demo.py\<close>. "Answer:", the end of the prompt.\<close>

definition prompt_tail :: pystr where
  "prompt_tail =
     [10, 32, 32, 32, 32, 32, 32, 32, 32, 10, 32, 32, 32, 32, 32, 32, 32, 32, 22238, 31572,
      65306, 10, 32, 32, 32, 32, 32, 32, 32, 32]"

text \<open>Line 92 of \<^verbatim>\<open>simple_rag_demo.py\<close>. "According to the retrieved information, about '".\<close>

definition answer_head :: pystr where
  "answer_head =
     [26681, 25454, 26816, 32034, 21040, 30340, 20449, 24687, 65292, 20851, 20110, 39]"

text \<open>Line 92 of \<^verbatim>\<open>simple_rag_demo.py\<close>. "' the answer is: based on the context provided, here is the generated answer."\<close>

definition answer_tail :: pystr where
  "answer_tail =
     [39, 30340, 22238, 31572, 26159, 65306, 22522, 20110, 25552, 20379, 30340, 19978, 19979,
      25991, 65292, 36825, 37324, 26159, 29983, 25104, 30340, 31572, 26696, 12290]"

text \<open>The prompt is built from the context and the query and then not used.\<close>

definition generate_answer :: "pystr \<Rightarrow> pystr list \<Rightarrow> pystr" where
  "generate_answer query_text context =
     (let prompt = prompt_head @ join [32] context @ prompt_question @ query_text @ prompt_tail;
          answer = answer_head @ query_text @ answer_tail
      in answer)"

subsection \<open>\<^verbatim>\<open>SimpleRAG.query\<close>\<close>

text \<open>Line 98 of \<^verbatim>\<open>simple_rag_demo.py\<close>. Newline, "Question:", in front of the question.\<close>

definition question_label :: pystr where
  "question_label =
     [10, 38382, 39064, 65306]"








subsection \<open>\<^verbatim>\<open>test_api.py\<close>: \<^verbatim>\<open>load_environment\<close> and \<^verbatim>\<open>main\<close>\<close>

text \<open>
  \<^verbatim>\<open>os.environ\<close> is a map from names to values; \<^verbatim>\<open>os.getenv\<close> gives \<^verbatim>\<open>None\<close> for a name
  that is not set. \<^verbatim>\<open>load_dotenv\<close> belongs to a library: it is a parameter, the change it
  makes to the environment. \<^verbatim>\<open>not v\<close> holds for \<^verbatim>\<open>None\<close> and for the empty string.
\<close>

type_synonym environ = "pystr \<rightharpoonup> pystr"

definition truthy :: "pystr option \<Rightarrow> bool" where
  "truthy v = (case v of None \<Rightarrow> False | Some s \<Rightarrow> s \<noteq> [])"

text \<open>Line 18 of \<^verbatim>\<open>test_api.py\<close>. The name ANTHROPIC_API_KEY.\<close>

definition ANTHROPIC_API_KEY :: pystr where
  "ANTHROPIC_API_KEY =
     [65, 78, 84, 72, 82, 79, 80, 73, 67, 95, 65, 80, 73, 95, 75, 69, 89]"

text \<open>Line 19 of \<^verbatim>\<open>test_api.py\<close>. The name ANTHROPIC_BASE_URL.\<close>

definition ANTHROPIC_BASE_URL :: pystr where
  "ANTHROPIC_BASE_URL =
     [65, 78, 84, 72, 82, 79, 80, 73, 67, 95, 66, 65, 83, 69, 95, 85, 82, 76]"

text \<open>Line 22 of \<^verbatim>\<open>test_api.py\<close>. Cross mark, "Error: environment variable ANTHROPIC_API_KEY not found".\<close>

definition error_no_api_key :: pystr where
  "error_no_api_key =
     [10060, 32, 38169, 35823, 58, 32, 26410, 25214, 21040, 65, 78, 84, 72, 82, 79, 80, 73, 67,
      95, 65, 80, 73, 95, 75, 69, 89, 29615, 22659, 21464, 37327]"

text \<open>Line 26 of \<^verbatim>\<open>test_api.py\<close>. Cross mark, "Error: environment variable ANTHROPIC_BASE_URL not found".\<close>

definition error_no_base_url :: pystr where
  "error_no_base_url =
     [10060, 32, 38169, 35823, 58, 32, 26410, 25214, 21040, 65, 78, 84, 72, 82, 79, 80, 73, 67,
      95, 66, 65, 83, 69, 95, 85, 82, 76, 29615, 22659, 21464, 37327]"

text \<open>Line 29 of \<^verbatim>\<open>test_api.py\<close>. Check mark, "API Key: ".\<close>

definition show_api_key :: pystr where
  "show_api_key =
     [9989, 32, 65, 80, 73, 32, 75, 101, 121, 58, 32]"

text \<open>Line 29 of \<^verbatim>\<open>test_api.py\<close>. "...".\<close>

definition dots :: pystr where
  "dots =
     [46, 46, 46]"

text \<open>Line 30 of \<^verbatim>\<open>test_api.py\<close>. Check mark, "Base URL: ".\<close>

definition show_base_url :: pystr where
  "show_base_url =
     [9989, 32, 66, 97, 115, 101, 32, 85, 82, 76, 58, 32]"

definition load_environment :: "(environ \<Rightarrow> environ) \<Rightarrow> environ \<Rightarrow> (pystr option \<times> pystr option) \<times> pystr list" where
  "load_environment load_dotenv environ =
     (let env = load_dotenv environ;
          api_key = env ANTHROPIC_API_KEY;
          base_url = env ANTHROPIC_BASE_URL
      in case api_key of
           None \<Rightarrow> ((None, None), [error_no_api_key])
         | Some k \<Rightarrow>
             if k = [] then ((None, None), [error_no_api_key])
             else if \<not> truthy base_url then ((None, None), [error_no_base_url])
             else ((api_key, base_url),
                   [show_api_key @ take 10 k @ dots @ drop (length k - 4) k,
                    show_base_url @ (case base_url of None \<Rightarrow> [] | Some u \<Rightarrow> u)]))"

text \<open>Line 129 of \<^verbatim>\<open>test_api.py\<close>. Rocket, "Starting the RAG API test".\<close>

definition banner :: pystr where
  "banner =
     [128640, 32, 24320, 22987, 82, 65, 71, 32, 65, 80, 73, 27979, 35797]"

text \<open>Line 145 of \<^verbatim>\<open>test_api.py\<close>. Newline, party popper, "All tests passed! The API configuration is right and can be used for RAG."\<close>

definition all_passed :: pystr where
  "all_passed =
     [10, 127881, 32, 25152, 26377, 27979, 35797, 36890, 36807, 65281, 65, 80, 73, 37197, 32622,
      27491, 30830, 65292, 21487, 20197, 29992, 20110, 82, 65, 71, 24212, 29992, 12290]"

text \<open>Line 147 of \<^verbatim>\<open>test_api.py\<close>. Newline, warning sign, "The basic API test passed, but the RAG scenario test failed."\<close>

definition rag_failed :: pystr where
  "rag_failed =
     [10, 9888, 65039, 32, 22522, 26412, 65, 80, 73, 27979, 35797, 36890, 36807, 65292, 20294,
      82, 65, 71, 22330, 26223, 27979, 35797, 22833, 36133, 12290]"

text \<open>Line 149 of \<^verbatim>\<open>test_api.py\<close>. Newline, cross mark, "API test failed, please check the configuration."\<close>

definition api_failed :: pystr where
  "api_failed =
     [10, 10060, 32, 65, 80, 73, 27979, 35797, 22833, 36133, 65292, 35831, 26816, 26597, 37197,
      32622, 12290]"

text \<open>Line 153 of \<^verbatim>\<open>test_api.py\<close>. Check mark, "Test finished".\<close>

definition finished :: pystr where
  "finished =
     [9989, 32, 27979, 35797, 23436, 25104]"

text \<open>
  \<^verbatim>\<open>sys.exit(1)\<close> raises \<^verbatim>\<open>SystemExit(1)\<close>, which nothing catches: the process ends with
  status 1. A run that returns from \<^verbatim>\<open>main\<close> ends with status 0.
\<close>

datatype outcome = Returned | SystemExit int

fun exit_status :: "outcome \<Rightarrow> int" where
  "exit_status Returned = 0"
| "exit_status (SystemExit n) = n"

text \<open>
  \<^verbatim>\<open>test_api_connection\<close> and \<^verbatim>\<open>test_rag_scenario\<close> talk to the remote service through
  a client library and catch every exception; what they print and return depends on the
  service. They are parameters of \<^verbatim>\<open>main\<close>: from the key and the URL, the verdict and the
  lines printed.
\<close>

definition main :: "(environ \<Rightarrow> environ) \<Rightarrow> environ \<Rightarrow>
    (pystr \<Rightarrow> pystr \<Rightarrow> bool \<times> pystr list) \<Rightarrow> (pystr \<Rightarrow> pystr \<Rightarrow> bool \<times> pystr list) \<Rightarrow>
    pystr list \<times> outcome" where
  "main load_dotenv environ test_api_connection test_rag_scenario =
     (let out0 = [banner, replicate 50 61];
          ((api_key, base_url), out1) = load_environment load_dotenv environ
      in if \<not> truthy api_key \<or> \<not> truthy base_url then (out0 @ out1, SystemExit 1)
         else
           (let (basic_test_success, out2) =
                  test_api_connection (case api_key of None \<Rightarrow> [] | Some k \<Rightarrow> k)
                                      (case base_url of None \<Rightarrow> [] | Some u \<Rightarrow> u)
            in if basic_test_success then
                 (let (rag_test_success, out3) =
                        test_rag_scenario (case api_key of None \<Rightarrow> [] | Some k \<Rightarrow> k)
                                          (case base_url of None \<Rightarrow> [] | Some u \<Rightarrow> u)
                  in (out0 @ out1 @ out2 @ out3
                        @ [if rag_test_success then all_passed else rag_failed]
                        @ [replicate 50 61, finished],
                      Returned))
               else (out0 @ out1 @ out2 @ [api_failed], SystemExit 1)))"

subsection \<open>Notions used in the statements\<close>


subsection \<open>Concrete inputs\<close>

text \<open>
  Generators with values in the range of \<^verbatim>\<open>np.random.rand\<close>: one that keeps producing
  \<open>1/2\<close>; one that produces \<open>1/2, 1/3, 1/4, \<dots>\<close>; one that produces \<open>1/4\<close> four times and
  then \<open>0\<close>; one that produces \<open>1/2\<close> once and then \<open>0\<close>; one that produces \<open>0\<close> only.
\<close>

definition steady :: rng where
  "steady i = 1 / 2"

definition harmonic :: rng where
  "harmonic i = 1 / real (i + 2)"




text \<open>
  The object after \<^verbatim>\<open>doc1\<close> with the content \<^verbatim>\<open>a\<close> has been added. The object after
  \<^verbatim>\<open>doc1\<close>, \<^verbatim>\<open>doc2\<close> and \<^verbatim>\<open>doc3\<close> with the contents \<^verbatim>\<open>a\<close>, \<^verbatim>\<open>b\<close> and \<^verbatim>\<open>c\<close> have been
  added, twice: once with the vectors \<open>(1/4, 1/4, 1/4, 1/4, 0, \<dots>)\<close>, \<open>(1/2, 0, \<dots>)\<close> and
  \<open>(1/4, 1/4, 1/4, 1/4, 0, \<dots>)\<close>, whose similarities to the query vector \<open>(1/2, 0, \<dots>)\<close> are
  \<open>1/2\<close>, \<open>1\<close> and \<open>1/2\<close>; once with the zero vector in the middle and \<open>(1/2, 0, \<dots>)\<close> last.
  With these numbers every operation of the similarity is exact in float64.
\<close>

definition one_doc :: simple_rag where
  "one_doc = fst (snd (add_document init [100, 111, 99, 49] [97] steady))"



section \<open>Properties\<close>

subsection \<open>Vectors of zero norm\<close>

lemma sum_list_squares_nonneg: "0 \<le> sum_list (map (\<lambda>x. x * x) (a :: real list))"
  by (induction a) auto

lemma np_norm_zero_iff: "np_norm a = 0 \<longleftrightarrow> (\<forall>x \<in> set a. x = 0)"
proof -
  have "sum_list (map (\<lambda>x. x * x) a) = 0 \<longleftrightarrow> (\<forall>x \<in> set a. x = 0)"
  proof (induction a)
    case Nil
    show ?case by simp
  next
    case (Cons x xs)
    have "0 \<le> x * x" by simp
    moreover have "0 \<le> sum_list (map (\<lambda>x. x * x) xs)"
      by (rule sum_list_squares_nonneg)
    ultimately have "x * x + sum_list (map (\<lambda>x. x * x) xs) = 0
        \<longleftrightarrow> x * x = 0 \<and> sum_list (map (\<lambda>x. x * x) xs) = 0"
      by (rule add_nonneg_eq_0_iff)
    with Cons.IH show ?case by simp
  qed
  then show ?thesis by (simp add: np_norm_def)
qed

lemma dot_zero_left: "\<forall>x \<in> set a. x = 0 \<Longrightarrow> dot a b = 0"
  unfolding dot_def
proof (induction a arbitrary: b)
  case Nil
  show ?case by simp
next
  case (Cons x xs)
  then show ?case by (cases b) auto
qed

lemma dot_zero_right: "\<forall>y \<in> set b. y = 0 \<Longrightarrow> dot a b = 0"
  unfolding dot_def
proof (induction b arbitrary: a)
  case Nil
  show ?case by simp
next
  case (Cons y ys)
  then show ?case by (cases a) auto
qed

lemma np_norm_replicate_zero: "np_norm (replicate n 0) = 0"
  by (simp add: np_norm_zero_iff)

text \<open>
  C1 (as stated, refuted). The claim asks that the similarity of two vectors, one of them of
  zero norm, fails with an error. For the zero vector and the vector of halves, both of
  the 100 dimensions the search uses, the computation returns a value, namely \<^verbatim>\<open>nan\<close>.
\<close>

theorem cosine_similarity_zero_norm_counterexample:
  "np_norm (replicate 100 0) = 0 \<and>
   cosine_similarity (replicate 100 0) (replicate 100 (1 / 2)) = Inr NaN"
proof -
  have "dot (replicate 100 0) (replicate 100 (1 / 2)) = 0"
    by (rule dot_zero_left) simp
  then show ?thesis
    by (simp add: cosine_similarity_def np_dot_def np_divide_def np_norm_replicate_zero)
qed

text \<open>
  C1 (amended). For two vectors of the same size, at least one of zero norm, the
  computation does not fail: it carries out the division by the zero product of the norms
  and returns its result, \<^verbatim>\<open>nan\<close>, as the score.
\<close>

theorem cosine_similarity_zero_norm:
  assumes "length vec1 = length vec2"
    and "np_norm vec1 = 0 \<or> np_norm vec2 = 0"
  shows "cosine_similarity vec1 vec2 = Inr NaN"
proof -
  from assms(2) have "dot vec1 vec2 = 0"
    by (auto simp: np_norm_zero_iff intro: dot_zero_left dot_zero_right)
  moreover from assms(2) have "np_norm vec1 * np_norm vec2 = 0"
    by auto
  ultimately show ?thesis
    using assms(1) by (simp add: cosine_similarity_def np_dot_def np_divide_def)
qed

text \<open>C1, the amended statement at the vectors \<open>(0, 0)\<close> and \<open>(3, 4)\<close>.\<close>

theorem cosine_similarity_zero_norm_witness:
  "length [0, 0 :: real] = length [3, 4 :: real] \<and>
   (np_norm [0, 0] = 0 \<or> np_norm [3, 4] = 0) \<and>
   cosine_similarity [0, 0] [3, 4] = Inr NaN"
proof -
  have len: "length [0, 0 :: real] = length [3, 4 :: real]" by simp
  have zero: "np_norm [0, 0] = 0 \<or> np_norm [3, 4] = 0" by (simp add: np_norm_def)
  from len zero cosine_similarity_zero_norm [OF len zero] show ?thesis by blast
qed

subsection \<open>Printing\<close>

lemma encodable_append: "encodable (a @ b) \<longleftrightarrow> encodable a \<and> encodable b"
  by (simp add: encodable_def)

lemma encodable_literals:
  "encodable added_head" "encodable added_tail" "encodable question_label"
  by (simp_all add: encodable_def added_head_def added_tail_def question_label_def)

lemma py_print_added:
  "py_print (added_head @ doc_id @ added_tail) =
     (if encodable doc_id then Inr () else Inl UnicodeEncodeError)"
  by (simp add: py_print_def encodable_append encodable_literals)


subsection \<open>Adding documents\<close>

lemma add_document_fields:
  "fst (add_document s doc_id cont g) = (if encodable doc_id then Inr () else Inl UnicodeEncodeError)"
  "documents (fst (snd (add_document s doc_id cont g))) =
     documents s @ [\<lparr>id' = doc_id, content = cont\<rparr>]"
  "embeddings (fst (snd (add_document s doc_id cont g))) =
     embeddings s @ [fst (generate_embedding cont g)]"
  "index (fst (snd (add_document s doc_id cont g))) = (index s)(doc_id \<mapsto> length (documents s))"
  "snd (snd (add_document s doc_id cont g)) = snd (generate_embedding cont g)"
  by (simp_all add: add_document_def Let_def py_print_added split: prod.splits)

lemma generate_embedding_steady: "generate_embedding t steady = (replicate 100 (1 / 2), steady)"
proof -
  have "(\<lambda>i. steady (i + 100)) = steady" by (rule ext) (simp add: steady_def)
  moreover have "map steady [0..<100] = replicate 100 (1 / 2)"
    by (simp add: steady_def [abs_def] map_replicate_const)
  ultimately show ?thesis by (simp add: generate_embedding_def random_rand_def)
qed

lemma one_doc_eq:
  "one_doc = \<lparr>documents = [\<lparr>id' = [100, 111, 99, 49], content = [97]\<rparr>],
              embeddings = [replicate 100 (1 / 2)],
              index = [[100, 111, 99, 49] \<mapsto> 0]\<rparr>"
  by (simp add: one_doc_def add_document_def init_def generate_embedding_steady)

lemma reachable_one_doc: "reachable one_doc"
  unfolding one_doc_def by (intro reachable.intros)







subsection \<open>The invariant of the object\<close>

lemma reachable_lengths: "reachable s \<Longrightarrow> length (documents s) = length (embeddings s)"
  by (induction rule: reachable.induct) (simp_all add: init_def add_document_fields)



lemma reachable_index:
  "reachable s \<Longrightarrow> index s k = Some pos \<Longrightarrow>
   pos < length (documents s) \<and> id' (documents s ! pos) = k"
proof (induction arbitrary: k pos rule: reachable.induct)
  case start
  then show ?case by (simp add: init_def)
next
  case (step s doc_id cont g)
  show ?case
  proof (cases "k = doc_id")
    case True
    with step.prems show ?thesis by (auto simp: add_document_fields)
  next
    case False
    with step.prems have "index s k = Some pos" by (simp add: add_document_fields)
    from step.IH [OF this] show ?thesis by (simp add: add_document_fields nth_append)
  qed
qed

text \<open>
  C6. In every state reached from a new object by any sequence of \<^verbatim>\<open>add_document\<close>
  calls, there are as many documents as embeddings, and every identifier the index holds
  is sent to a position that exists in both lists; the document at that position carries
  the identifier.
\<close>

theorem reachable_paired:
  assumes "reachable s"
  shows "length (documents s) = length (embeddings s) \<and>
         (\<forall>k pos. index s k = Some pos \<longrightarrow>
            pos < length (documents s) \<and> pos < length (embeddings s) \<and>
            id' (documents s ! pos) = k)"
  using assms reachable_lengths [OF assms] reachable_index [OF assms] by auto

text \<open>C6 at the object holding \<^verbatim>\<open>doc1\<close>, whose index sends \<^verbatim>\<open>doc1\<close> to position 0.\<close>

theorem reachable_paired_witness:
  "reachable one_doc \<and>
   index one_doc [100, 111, 99, 49] = Some 0 \<and>
   length (documents one_doc) = length (embeddings one_doc) \<and>
   0 < length (documents one_doc) \<and> 0 < length (embeddings one_doc) \<and>
   id' (documents one_doc ! 0) = [100, 111, 99, 49]"
proof -
  have lookup: "index one_doc [100, 111, 99, 49] = Some 0"
    by (simp add: one_doc_eq)
  from reachable_paired [OF reachable_one_doc] lookup reachable_one_doc show ?thesis
    by blast
qed

text \<open>The states reached are the states after a list of calls.\<close>

lemma reachable_inserted: "reachable s \<Longrightarrow> reachable (inserted calls s)"
proof (induction calls arbitrary: s)
  case Nil
  then show ?case by simp
next
  case (Cons c calls)
  obtain doc_id cont g where c: "c = (doc_id, cont, g)"
    by (cases c)
  from Cons.prems have "reachable (fst (snd (add_document s doc_id cont g)))"
    by (rule reachable.step)
  then have "reachable (inserted calls (fst (snd (add_document s doc_id cont g))))"
    by (rule Cons.IH)
  with c show ?case by simp
qed

lemma inserted_append: "inserted (xs @ ys) s = inserted ys (inserted xs s)"
  by (induction xs arbitrary: s) auto

lemma reachable_is_inserted: "reachable s \<Longrightarrow> \<exists>calls. s = inserted calls init"
proof (induction rule: reachable.induct)
  case start
  have "init = inserted [] init" by simp
  then show ?case by blast
next
  case (step s doc_id cont g)
  then obtain calls where "s = inserted calls init" by blast
  then have "fst (snd (add_document s doc_id cont g)) = inserted (calls @ [(doc_id, cont, g)]) init"
    by (simp add: inserted_append)
  then show ?case by blast
qed

lemma reachable_iff_inserted: "reachable s \<longleftrightarrow> (\<exists>calls. s = inserted calls init)"
  using reachable_is_inserted reachable_inserted [OF reachable.start] by blast

subsection \<open>The embedding\<close>

text \<open>
  C7 (the code departs from the claim). The claim asks that two calls of the embedding
  on the same text return the same vector. With the generator at \<open>1/2, 1/3, 1/4, \<dots>\<close>, two
  calls in a row on the text \<^verbatim>\<open>a\<close> return different vectors: the second call draws the
  next hundred numbers.
\<close>

theorem generate_embedding_differs:
  "fst (generate_embedding [97] harmonic) \<noteq>
   fst (generate_embedding [97] (snd (generate_embedding [97] harmonic)))"
proof -
  have "hd (fst (generate_embedding [97] harmonic)) = 1 / 2"
    by (simp add: generate_embedding_def random_rand_def harmonic_def upt_conv_Cons)
  moreover
  have "hd (fst (generate_embedding [97] (snd (generate_embedding [97] harmonic)))) = 1 / 102"
    by (simp add: generate_embedding_def random_rand_def harmonic_def upt_conv_Cons)
  ultimately show ?thesis by auto
qed

subsection \<open>Sorting by score\<close>











subsection \<open>Retrieval\<close>

lemma cosine_similarity_float64_exact: "cosine_similarity_float64 score a b = cosine_similarity a b"
  by (simp add: cosine_similarity_float64_def cosine_similarity_def np_dot_def score_def)

text \<open>In exact arithmetic a score is \<^verbatim>\<open>nan\<close> exactly when one of the two vectors has zero norm.\<close>

lemma score_nan_iff: "score q e = NaN \<longleftrightarrow> np_norm q = 0 \<or> np_norm e = 0"
proof
  assume "score q e = NaN"
  then show "np_norm q = 0 \<or> np_norm e = 0"
    by (simp add: score_def np_divide_def split: if_splits)
next
  assume zero: "np_norm q = 0 \<or> np_norm e = 0"
  then have "dot q e = 0"
    by (auto simp: np_norm_zero_iff intro: dot_zero_left dot_zero_right)
  with zero show "score q e = NaN"
    by (auto simp: score_def np_divide_def)
qed





text \<open>
  C5. For every query and every \<^verbatim>\<open>top_k\<close>, \<^verbatim>\<open>retrieve\<close> on an object without documents
  returns the empty list, raises nothing, and does not even draw from the generator.
\<close>

theorem retrieve_empty:
  assumes "documents s = []"
  shows "retrieve fl s query_text top_k g = (Some (Inr []), g)"
  using assms by (simp add: retrieve_def)

text \<open>C5 at the new object.\<close>

theorem retrieve_empty_witness:
  "documents init = [] \<and> retrieve score init [113] 3 steady = (Some (Inr []), steady)"
proof -
  have empty: "documents init = []" by (simp add: init_def)
  from empty retrieve_empty [OF empty, of score "[113]" 3 steady] show ?thesis by blast
qed


subsection \<open>The concrete rankings, evaluated\<close>














subsection \<open>Answers\<close>

text \<open>
  C9. For every query and any two context lists, \<^verbatim>\<open>generate_answer\<close> returns the same
  string: the answer is built from the query alone.
\<close>

theorem generate_answer_ignores_context:
  "generate_answer query_text c1 = generate_answer query_text c2"
proof -
  have frame: "generate_answer query_text c = answer_head @ query_text @ answer_tail" for c
    by (simp add: generate_answer_def)
  have "generate_answer query_text c1 = answer_head @ query_text @ answer_tail"
    by (rule frame)
  also have "\<dots> = generate_answer query_text c2"
    by (rule frame [symmetric])
  finally show ?thesis .
qed




subsection \<open>Start-up of the API check\<close>

text \<open>
  C8. When, after \<^verbatim>\<open>load_dotenv\<close>, the API key or the base URL is not set, \<^verbatim>\<open>main\<close>
  prints the banner, the rule and the error message of the first value found missing or
  empty,
  and ends the process with status 1; neither test is run.
\<close>

theorem main_missing_configuration:
  assumes "load_dotenv environ ANTHROPIC_API_KEY = None \<or>
           load_dotenv environ ANTHROPIC_BASE_URL = None"
  shows "main load_dotenv environ test_api_connection test_rag_scenario =
           ([banner, replicate 50 61,
             if truthy (load_dotenv environ ANTHROPIC_API_KEY) then error_no_base_url
             else error_no_api_key],
            SystemExit 1) \<and>
         exit_status (snd (main load_dotenv environ test_api_connection test_rag_scenario)) = 1"
  using assms
  by (auto simp: main_def load_environment_def truthy_def Let_def split: option.splits)

text \<open>C8 with the key set to \<^verbatim>\<open>k\<close>, no base URL and a \<^verbatim>\<open>load_dotenv\<close> that adds nothing.\<close>

theorem main_missing_configuration_witness:
  "[ANTHROPIC_API_KEY \<mapsto> [107]] ANTHROPIC_BASE_URL = None \<and>
   main (\<lambda>e. e) [ANTHROPIC_API_KEY \<mapsto> [107]] (\<lambda>k u. (True, [])) (\<lambda>k u. (True, [])) =
     ([banner, replicate 50 61, error_no_base_url], SystemExit 1) \<and>
   exit_status (snd (main (\<lambda>e. e) [ANTHROPIC_API_KEY \<mapsto> [107]]
                       (\<lambda>k u. (True, [])) (\<lambda>k u. (True, [])))) = 1"
proof -
  have names: "ANTHROPIC_BASE_URL \<noteq> ANTHROPIC_API_KEY"
    by (simp add: ANTHROPIC_API_KEY_def ANTHROPIC_BASE_URL_def)
  then have absent: "[ANTHROPIC_API_KEY \<mapsto> [107 :: nat]] ANTHROPIC_BASE_URL = None"
    by simp
  with names main_missing_configuration
    [of "\<lambda>e. e" "[ANTHROPIC_API_KEY \<mapsto> [107]]" "\<lambda>k u. (True, [])" "\<lambda>k u. (True, [])"]
  show ?thesis by (simp add: truthy_def)
qed

end

